theory Spec2Isabelle
  imports Complex_Main "HOL-Library.Word"
begin

section \<open>Data model\<close>

text \<open>
  The landmark plugins of \<^verbatim>\<open>src/openbr/plugins/landmarks.cpp\<close> compute on
  \<^verbatim>\<open>float\<close>/\<^verbatim>\<open>double\<close> coordinates. The embedding uses \<^typ>\<open>real\<close> for them: the
  arithmetic is exact and rounding is not modelled. A quotient by a zero norm, which the
  C++ evaluates to an infinity or a NaN, has no real value; the embedding ends such a
  run with the outcome \<open>NonFinite\<close>. Reads that the source makes without a range check
  (\<^verbatim>\<open>rects[0]\<close>, \<^verbatim>\<open>normalizedPoints[j][i]\<close>, a coefficient of a matrix outside its
  dimensions) have no defined result and end the run with the matching error value. Logging
  (\<^verbatim>\<open>qWarning\<close>, \<^verbatim>\<open>qDebug\<close>) has no effect on the results and is left out.
\<close>

datatype error =
    RectsIndexOutOfRange
  | ShapesIndexOutOfRange
  | PointIndexOutOfRange
  | CoeffIndexOutOfRange
  | NonFinite
  | MissingKey string
  | StreamUnderflow
  | UnmatchedSizes
  | OutOfRange

type_synonym QPointF = "real \<times> real"

record QRectF =
  rect_x :: real
  rect_y :: real
  rect_w :: real
  rect_h :: real

definition topLeft :: "QRectF \<Rightarrow> QPointF" where
  "topLeft r = (rect_x r, rect_y r)"

definition topRight :: "QRectF \<Rightarrow> QPointF" where
  "topRight r = (rect_x r + rect_w r, rect_y r)"

definition bottomLeft :: "QRectF \<Rightarrow> QPointF" where
  "bottomLeft r = (rect_x r, rect_y r + rect_h r)"

definition bottomRight :: "QRectF \<Rightarrow> QPointF" where
  "bottomRight r = (rect_x r + rect_w r, rect_y r + rect_h r)"

record File =
  points :: "QPointF list"
  rects :: "QRectF list"
  metadata :: "string \<Rightarrow> real option"

record 'm Template =
  tmpl_m :: 'm
  tmpl_file :: File

text \<open>
  Modelled from the spec: the sample record's ``generic named-scalar attribute store for
  attaching/reading AlignmentParameters'' (\<^verbatim>\<open>File::set\<close> and \<^verbatim>\<open>File::get<float>\<close>,
  declared outside \<^verbatim>\<open>src/\<close>). Reading a key that was never set has no value and
  ends the run.
\<close>

definition set_value :: "string \<Rightarrow> real \<Rightarrow> File \<Rightarrow> File" where
  "set_value k v f = f\<lparr>metadata := (metadata f)(k \<mapsto> v)\<rparr>"

definition get_value :: "File \<Rightarrow> string \<Rightarrow> error + real" where
  "get_value f k = (case metadata f k of None \<Rightarrow> Inl (MissingKey k) | Some v \<Rightarrow> Inr v)"

text \<open>
  The four statements \<^verbatim>\<open>points.append(rects[0].topLeft()); ...\<close> that
  \<^verbatim>\<open>ProcrustesTransform::train\<close>, \<^verbatim>\<open>ProcrustesTransform::project\<close> and
  \<^verbatim>\<open>DelaunayTransform::project\<close> each repeat. \<^verbatim>\<open>rects[0]\<close> is read without a check.
\<close>

definition first_rect :: "QRectF list \<Rightarrow> QRectF option" where
  "first_rect rs = (case rs of [] \<Rightarrow> None | r # _ \<Rightarrow> Some r)"

definition append_corners :: "QPointF list \<Rightarrow> QRectF list \<Rightarrow> error + QPointF list" where
  "append_corners pts rs =
     (case first_rect rs of
        None \<Rightarrow> Inl RectsIndexOutOfRange
      | Some r \<Rightarrow> Inr (pts @ [topLeft r, topRight r, bottomLeft r, bottomRight r]))"

section \<open>OpenCV and Eigen primitives\<close>

text \<open>
  \<^verbatim>\<open>cv::mean\<close> of a vector of 2D points is the mean of each channel (zero for an
  empty vector); \<^verbatim>\<open>cv::norm\<close> is the L2 norm of all coordinates taken as one vector.
\<close>

definition cv_mean :: "QPointF list \<Rightarrow> real \<times> real" where
  "cv_mean pts =
     (if pts = [] then (0, 0)
      else (sum_list (map fst pts) / real (length pts),
            sum_list (map snd pts) / real (length pts)))"

definition cv_norm :: "QPointF list \<Rightarrow> real" where
  "cv_norm pts = sqrt (sum_list (map (\<lambda>p. (fst p)\<^sup>2 + (snd p)\<^sup>2) pts))"

text \<open>
  \<^verbatim>\<open>Eigen::MatrixXf\<close>: a dense matrix of run-time dimensions, here the list of its rows.
  A default-constructed matrix is 0 by 0. A coefficient outside the dimensions is read
  without a check.
\<close>

record MatrixXf =
  mrows :: nat
  mcols :: nat
  mdata :: "real list list"

definition empty_matrix :: MatrixXf where
  "empty_matrix = \<lparr>mrows = 0, mcols = 0, mdata = []\<rparr>"

definition coeff :: "MatrixXf \<Rightarrow> nat \<Rightarrow> nat \<Rightarrow> error + real" where
  "coeff A i j =
     (if i < mrows A \<and> j < mcols A then Inr (mdata A ! i ! j) else Inl CoeffIndexOutOfRange)"

definition transpose_matrix :: "MatrixXf \<Rightarrow> MatrixXf" where
  "transpose_matrix A =
     \<lparr>mrows = mcols A, mcols = mrows A,
      mdata = map (\<lambda>j. map (\<lambda>i. mdata A ! i ! j) [0..<mrows A]) [0..<mcols A]\<rparr>"

text \<open>
  The product \<^verbatim>\<open>A * B\<close>. Neither the source nor a release build of Eigen compares
  \<^verbatim>\<open>A.cols()\<close> with \<^verbatim>\<open>B.rows()\<close>. The product has \<^verbatim>\<open>A.rows()\<close> rows and
  \<^verbatim>\<open>B.cols()\<close> columns, and its coefficient \<open>(i, j)\<close> is the sum of \<open>A(i, k) * B(k, j)\<close>
  over \<open>k < A.cols()\<close>. Rows of \<open>B\<close> beyond \<^verbatim>\<open>A.cols()\<close> are never read; when \<open>B\<close> has
  fewer rows than that and the product has a coefficient to compute, coefficients of
  \<open>B\<close> outside its dimensions are read.
\<close>

definition mat_mul :: "MatrixXf \<Rightarrow> MatrixXf \<Rightarrow> error + MatrixXf" where
  "mat_mul A B =
     (if 0 < mrows A \<and> 0 < mcols B \<and> mrows B < mcols A then Inl CoeffIndexOutOfRange
      else Inr \<lparr>mrows = mrows A, mcols = mcols B,
                mdata = map (\<lambda>i. map (\<lambda>j. sum_list (map (\<lambda>k. mdata A ! i ! k * mdata B ! k ! j)
                                                         [0..<mcols A]))
                                       [0..<mcols B])
                            [0..<mrows A]\<rparr>)"

section \<open>ProcrustesTransform\<close>

record ProcrustesTransform =
  meanShape :: MatrixXf

text \<open>A transform on which \<^verbatim>\<open>train\<close> and \<^verbatim>\<open>load\<close> were never called.\<close>

definition untrained :: ProcrustesTransform where
  "untrained = \<lparr>meanShape = empty_matrix\<rparr>"

text \<open>\<^verbatim>\<open>for (i...) points[i] -= QPointF(mean[0],mean[1])\<close>\<close>

definition subtract_mean :: "QPointF list \<Rightarrow> real \<times> real \<Rightarrow> QPointF list" where
  "subtract_mean pts mean = map (\<lambda>p. (fst p - fst mean, snd p - snd mean)) pts"

text \<open>
  Lines 45 to 49 of \<^verbatim>\<open>train\<close>: centre the points on their mean, then divide each by the
  norm of the centred points.
\<close>

definition normalize_points :: "QPointF list \<Rightarrow> error + QPointF list" where
  "normalize_points pts =
     (let mean = cv_mean pts;
          centred = subtract_mean pts mean;
          nrm = cv_norm centred
      in if nrm = 0 then Inl NonFinite
         else Inr (map (\<lambda>p. (fst p / nrm, snd p / nrm)) centred))"

text \<open>
  The body of the \<^verbatim>\<open>foreach\<close> loop of \<^verbatim>\<open>train\<close>: \<open>None\<close> is the \<^verbatim>\<open>continue\<close> for a
  datum without points, \<open>Some shape\<close> is what the body appends to
  \<^verbatim>\<open>normalizedPoints\<close>.
\<close>

definition normalize_datum :: "'m Template \<Rightarrow> error + QPointF list option" where
  "normalize_datum datum =
     (if points (tmpl_file datum) = [] then Inr None
      else
        case append_corners (points (tmpl_file datum)) (rects (tmpl_file datum)) of
          Inl e \<Rightarrow> Inl e
        | Inr pts \<Rightarrow>
            (case normalize_points pts of
               Inl e \<Rightarrow> Inl e
             | Inr shape \<Rightarrow> Inr (Some shape)))"

text \<open>The loop itself.\<close>

fun collect_normalized :: "'m Template list \<Rightarrow> error + QPointF list list" where
  "collect_normalized [] = Inr []"
| "collect_normalized (datum # data) =
     (case normalize_datum datum of
        Inl e \<Rightarrow> Inl e
      | Inr None \<Rightarrow> collect_normalized data
      | Inr (Some shape) \<Rightarrow>
          (case collect_normalized data of
             Inl e \<Rightarrow> Inl e
           | Inr shapes \<Rightarrow> Inr (shape # shapes)))"

text \<open>
  The inner loop over \<^verbatim>\<open>j\<close>: \<^verbatim>\<open>x += normalizedPoints[j][i].x()\<close>, with no check that
  shape \<^verbatim>\<open>j\<close> has a point \<^verbatim>\<open>i\<close>.
\<close>

fun sum_at :: "nat \<Rightarrow> QPointF list list \<Rightarrow> real \<times> real \<Rightarrow> error + real \<times> real" where
  "sum_at i [] acc = Inr acc"
| "sum_at i (s # ss) acc =
     (if i < length s then sum_at i ss (fst acc + fst (s ! i), snd acc + snd (s ! i))
      else Inl PointIndexOutOfRange)"

text \<open>The outer loop over \<^verbatim>\<open>i\<close>, which writes row \<^verbatim>\<open>i\<close> of \<^verbatim>\<open>shapeBuffer\<close>.\<close>

fun mean_rows :: "QPointF list list \<Rightarrow> nat list \<Rightarrow> error + real list list" where
  "mean_rows shapes [] = Inr []"
| "mean_rows shapes (i # is) =
     (case sum_at i shapes (0, 0) of
        Inl e \<Rightarrow> Inl e
      | Inr acc \<Rightarrow>
          (case mean_rows shapes is of
             Inl e \<Rightarrow> Inl e
           | Inr rs \<Rightarrow>
               Inr ([fst acc / real (length shapes), snd acc / real (length shapes)] # rs)))"

definition train :: "ProcrustesTransform \<Rightarrow> 'm Template list \<Rightarrow> error + ProcrustesTransform" where
  "train self data =
     (case collect_normalized data of
        Inl e \<Rightarrow> Inl e
      | Inr normalizedPoints \<Rightarrow>
          (case normalizedPoints of
             [] \<Rightarrow> Inl ShapesIndexOutOfRange
           | s0 # _ \<Rightarrow>
               (case mean_rows normalizedPoints [0..<length s0] of
                  Inl e \<Rightarrow> Inl e
                | Inr rs \<Rightarrow>
                    Inr (self\<lparr>meanShape := \<lparr>mrows = length s0, mcols = 2, mdata = rs\<rparr>\<rparr>))))"

text \<open>
  Lines 95 to 100 of \<^verbatim>\<open>project\<close>: the matrix \<^verbatim>\<open>srcPoints\<close>, filled from the centred
  points and their norm.
\<close>

definition srcPoints :: "QPointF list \<Rightarrow> real \<Rightarrow> MatrixXf" where
  "srcPoints centred nrm =
     \<lparr>mrows = length centred, mcols = 2,
      mdata = map (\<lambda>p. [fst p / (nrm / 150) + 50, snd p / (nrm / 150) + 50]) centred\<rparr>"

text \<open>Lines 91 to 100: from the augmented points to \<^verbatim>\<open>mean\<close>, \<^verbatim>\<open>norm\<close> and \<^verbatim>\<open>srcPoints\<close>.\<close>

definition canonical_frame :: "QPointF list \<Rightarrow> error + (real \<times> real) \<times> real \<times> MatrixXf" where
  "canonical_frame pts =
     (let mean = cv_mean pts;
          centred = subtract_mean pts mean;
          nrm = cv_norm centred
      in if nrm = 0 then Inl NonFinite
         else Inr (mean, nrm, srcPoints centred nrm))"

text \<open>
  \<^verbatim>\<open>Eigen::JacobiSVD\<close> is a parameter \<open>svd\<close>: it maps a matrix to the decomposition
  object, of which \<^verbatim>\<open>project\<close> reads \<^verbatim>\<open>matrixU()\<close> and \<^verbatim>\<open>matrixV()\<close>. \<^verbatim>\<open>project\<close>
  takes the transform, the source template and the destination template, and returns
  the destination as it leaves it.
\<close>

record JacobiSVD =
  matrixU :: MatrixXf
  singularValues :: "real list"
  matrixV :: MatrixXf

definition project ::
  "(MatrixXf \<Rightarrow> JacobiSVD) \<Rightarrow> ProcrustesTransform \<Rightarrow> 'm Template \<Rightarrow> 'm Template
     \<Rightarrow> error + 'm Template" where
  "project svd self src dst =
     (case append_corners (points (tmpl_file src)) (rects (tmpl_file src)) of
        Inl e \<Rightarrow> Inl e
      | Inr pts \<Rightarrow>
     (case canonical_frame pts of
        Inl e \<Rightarrow> Inl e
      | Inr (mean, nrm, sp) \<Rightarrow>
     (case mat_mul (transpose_matrix sp) (meanShape self) of
        Inl e \<Rightarrow> Inl e
      | Inr M \<Rightarrow>
     (case mat_mul (matrixU (svd M)) (transpose_matrix (matrixV (svd M))) of
        Inl e \<Rightarrow> Inl e
      | Inr R \<Rightarrow>
     (case coeff R 0 0 of Inl e \<Rightarrow> Inl e | Inr r00 \<Rightarrow>
     (case coeff R 1 0 of Inl e \<Rightarrow> Inl e | Inr r10 \<Rightarrow>
     (case coeff R 1 1 of Inl e \<Rightarrow> Inl e | Inr r11 \<Rightarrow>
     (case coeff R 0 1 of Inl e \<Rightarrow> Inl e | Inr r01 \<Rightarrow>
        Inr (dst\<lparr>tmpl_m := tmpl_m src,
                 tmpl_file :=
                   set_value ''Procrustes_norm'' nrm
                  (set_value ''Procrustes_mean_1'' (snd mean)
                  (set_value ''Procrustes_mean_0'' (fst mean)
                  (set_value ''Procrustes_0_1'' r01
                  (set_value ''Procrustes_1_1'' r11
                  (set_value ''Procrustes_1_0'' r10
                  (set_value ''Procrustes_0_0'' r00 (tmpl_file dst)))))))\<rparr>)))))))))"

text \<open>
  Modelled from the spec: the \<^verbatim>\<open>QDataStream\<close> operators \<^verbatim>\<open><<\<close> and \<^verbatim>\<open>>>\<close> for Eigen
  matrices (\<^verbatim>\<open>openbr/core/eigenutils.h\<close>, not under \<^verbatim>\<open>src/\<close>) that \<^verbatim>\<open>store\<close> and
  \<^verbatim>\<open>load\<close> call. The spec: the MeanShape ``is written/read as a single dense matrix
  blob'', ``restorable bit-for-bit (row/column order preserved)''. The blob is the two
  dimensions followed by the coefficients, row after row.
\<close>

datatype item = IntItem nat | FloatItem real

fun read_floats :: "nat \<Rightarrow> item list \<Rightarrow> (real list \<times> item list) option" where
  "read_floats 0 s = Some ([], s)"
| "read_floats (Suc n) (FloatItem v # s) =
     (case read_floats n s of None \<Rightarrow> None | Some (vs, s') \<Rightarrow> Some (v # vs, s'))"
| "read_floats (Suc n) s = None"

fun chop :: "nat \<Rightarrow> nat \<Rightarrow> real list \<Rightarrow> real list list" where
  "chop 0 c vs = []"
| "chop (Suc r) c vs = take c vs # chop r c (drop c vs)"

definition write_matrix :: "item list \<Rightarrow> MatrixXf \<Rightarrow> item list" where
  "write_matrix stream A =
     stream @ [IntItem (mrows A), IntItem (mcols A)] @ map FloatItem (concat (mdata A))"

definition read_matrix :: "item list \<Rightarrow> error + MatrixXf \<times> item list" where
  "read_matrix stream =
     (case stream of
        IntItem r # IntItem c # s \<Rightarrow>
          (case read_floats (r * c) s of
             None \<Rightarrow> Inl StreamUnderflow
           | Some (vs, s') \<Rightarrow> Inr (\<lparr>mrows = r, mcols = c, mdata = chop r c vs\<rparr>, s'))
      | _ \<Rightarrow> Inl StreamUnderflow)"

text \<open>\<^verbatim>\<open>store\<close> and \<^verbatim>\<open>load\<close> themselves, lines 115 to 123.\<close>

definition store :: "ProcrustesTransform \<Rightarrow> item list \<Rightarrow> item list" where
  "store self stream = write_matrix stream (meanShape self)"

definition load :: "ProcrustesTransform \<Rightarrow> item list \<Rightarrow> error + ProcrustesTransform \<times> item list" where
  "load self stream =
     (case read_matrix stream of
        Inl e \<Rightarrow> Inl e
      | Inr (A, s') \<Rightarrow> Inr (self\<lparr>meanShape := A\<rparr>, s'))"

section \<open>DelaunayTransform\<close>

text \<open>
  \<^verbatim>\<open>cv::Point\<close> has \<^verbatim>\<open>int\<close> coordinates. A \<^verbatim>\<open>Vec6f\<close> is the six coordinates of a
  triangle of the subdivision; the \<^verbatim>\<open>vector<Point> pt(3)\<close> and the three-element
  \<^verbatim>\<open>QList<Point>\<close> built from it are a triple of points.
\<close>

type_synonym Point = "int \<times> int"
type_synonym Vec6f = "real \<times> real \<times> real \<times> real \<times> real \<times> real"
type_synonym Triangle = "Point \<times> Point \<times> Point"

definition vertices :: "Triangle \<Rightarrow> Point list" where
  "vertices tri = (case tri of (p0, p1, p2) \<Rightarrow> [p0, p1, p2])"

text \<open>
  \<^verbatim>\<open>cv::Mat\<close>: the dimensions, the type code (\<^verbatim>\<open>CV_8UC1\<close> is 0) and, for a
  single-channel 8-bit image, the pixel values; the contents of an image of another type
  are not modelled. \<^verbatim>\<open>Mat::zeros\<close>, the two-array \<^verbatim>\<open>bitwise_and\<close> and the saturating
  \<^verbatim>\<open>+=\<close> follow OpenCV's documentation: the two operands must have one size and one
  type, otherwise OpenCV throws. (OpenCV can read an operand of one row or one column as a
  scalar instead; images of one row or one column and a type other than \<^verbatim>\<open>CV_8UC1\<close> are
  outside the model.)
\<close>

record Mat =
  rows :: nat
  cols :: nat
  mtype :: nat
  pix :: "nat \<Rightarrow> nat \<Rightarrow> 8 word"

definition CV_8UC1 :: nat where
  "CV_8UC1 = 0"

definition zeros :: "nat \<Rightarrow> nat \<Rightarrow> nat \<Rightarrow> Mat" where
  "zeros r c t = \<lparr>rows = r, cols = c, mtype = t, pix = (\<lambda>i j. 0)\<rparr>"

definition bitwise_and :: "Mat \<Rightarrow> Mat \<Rightarrow> error + Mat" where
  "bitwise_and a b =
     (if rows a = rows b \<and> cols a = cols b \<and> mtype a = mtype b
      then Inr \<lparr>rows = rows a, cols = cols a, mtype = mtype a,
                pix = (\<lambda>i j. and (pix a i j) (pix b i j))\<rparr>
      else Inl UnmatchedSizes)"

definition saturate_add :: "8 word \<Rightarrow> 8 word \<Rightarrow> 8 word" where
  "saturate_add a b = (if unat a + unat b > 255 then 255 else a + b)"

definition add_assign :: "Mat \<Rightarrow> Mat \<Rightarrow> error + Mat" where
  "add_assign a b =
     (if rows a = rows b \<and> cols a = cols b \<and> mtype a = mtype b
      then Inr \<lparr>rows = rows a, cols = cols a, mtype = mtype a,
                pix = (\<lambda>i j. saturate_add (pix a i j) (pix b i j))\<rparr>
      else Inl UnmatchedSizes)"

text \<open>
  The OpenCV routines that \<^verbatim>\<open>project\<close> calls and whose results the source does not
  determine are parameters:
  \<^item> \<open>cv_round\<close>: \<^verbatim>\<open>cvRound\<close>, also the conversion of a \<^verbatim>\<open>Point2f\<close> to a \<^verbatim>\<open>Point\<close>;
  \<^item> \<open>cv_triangulate ncols nrows pts\<close>: a \<^verbatim>\<open>Subdiv2D\<close> on the rectangle of the image,
    \<^verbatim>\<open>insert\<close> of every point in turn, then \<^verbatim>\<open>getTriangleList\<close>; \<open>None\<close> when an
    \<^verbatim>\<open>insert\<close> throws;
  \<^item> \<open>cv_line\<close>: \<^verbatim>\<open>line\<close> in black with thickness 1;
  \<^item> \<open>cv_getAffineTransform\<close>: the 2 by 3 matrix that \<^verbatim>\<open>getAffineTransform\<close> returns;
  \<^item> \<open>cv_warpAffine src M ncols nrows\<close>: the pixel values of the image that
    \<^verbatim>\<open>warpAffine\<close> writes, which has the size asked for and the type of \<open>src\<close>;
  \<^item> \<open>cv_fillConvexPoly nrows ncols pts\<close>: the pixels that \<^verbatim>\<open>fillConvexPoly\<close> sets, with
    line type 8, on a mask of that size.
\<close>

record OpenCV =
  cv_round :: "real \<Rightarrow> int"
  cv_triangulate :: "nat \<Rightarrow> nat \<Rightarrow> QPointF list \<Rightarrow> Vec6f list option"
  cv_line :: "Mat \<Rightarrow> Point \<Rightarrow> Point \<Rightarrow> Mat"
  cv_getAffineTransform :: "QPointF list \<Rightarrow> QPointF list \<Rightarrow> real list list"
  cv_warpAffine :: "Mat \<Rightarrow> real list list \<Rightarrow> nat \<Rightarrow> nat \<Rightarrow> nat \<Rightarrow> nat \<Rightarrow> 8 word"
  cv_fillConvexPoly :: "nat \<Rightarrow> nat \<Rightarrow> Point list \<Rightarrow> nat \<Rightarrow> nat \<Rightarrow> bool"

record DelaunayTransform =
  draw :: bool

definition round_triangle :: "(real \<Rightarrow> int) \<Rightarrow> Vec6f \<Rightarrow> Triangle" where
  "round_triangle rnd t =
     (case t of (t0, t1, t2, t3, t4, t5) \<Rightarrow>
        ((rnd t0, rnd t1), (rnd t2, rnd t3), (rnd t4, rnd t5)))"

text \<open>The body of the loop over \<^verbatim>\<open>j\<close>: one vertex may clear the flag \<^verbatim>\<open>inside\<close>.\<close>

definition check_vertex :: "int \<Rightarrow> int \<Rightarrow> bool \<Rightarrow> Point \<Rightarrow> bool" where
  "check_vertex ncols nrows inside p =
     (if fst p > ncols \<or> snd p > nrows \<or> fst p \<le> 0 \<or> snd p \<le> 0 then False else inside)"

definition is_inside :: "int \<Rightarrow> int \<Rightarrow> Triangle \<Rightarrow> bool" where
  "is_inside ncols nrows tri = foldl (check_vertex ncols nrows) True (vertices tri)"

text \<open>The loop over \<^verbatim>\<open>triangleList\<close> that fills \<^verbatim>\<open>validTriangles\<close>.\<close>

fun validTriangles :: "(real \<Rightarrow> int) \<Rightarrow> int \<Rightarrow> int \<Rightarrow> Vec6f list \<Rightarrow> Triangle list" where
  "validTriangles rnd ncols nrows [] = []"
| "validTriangles rnd ncols nrows (t # ts) =
     (let pt = round_triangle rnd t in
      if is_inside ncols nrows pt
      then pt # validTriangles rnd ncols nrows ts
      else validTriangles rnd ncols nrows ts)"

text \<open>The \<^verbatim>\<open>draw\<close> branch: three lines for each kept triangle.\<close>

fun draw_triangles :: "OpenCV \<Rightarrow> Mat \<Rightarrow> Triangle list \<Rightarrow> Mat" where
  "draw_triangles cv img [] = img"
| "draw_triangles cv img ((p0, p1, p2) # tris) =
     draw_triangles cv (cv_line cv (cv_line cv (cv_line cv img p0 p1) p1 p2) p2 p0) tris"

text \<open>Lines 202 to 214: the seven reads of the sample's attributes, in the source's order.\<close>

definition read_alignment :: "File \<Rightarrow> error + MatrixXf \<times> (real \<times> real) \<times> real" where
  "read_alignment f =
     (case get_value f ''Procrustes_0_0'' of Inl e \<Rightarrow> Inl e | Inr r00 \<Rightarrow>
     (case get_value f ''Procrustes_1_0'' of Inl e \<Rightarrow> Inl e | Inr r10 \<Rightarrow>
     (case get_value f ''Procrustes_1_1'' of Inl e \<Rightarrow> Inl e | Inr r11 \<Rightarrow>
     (case get_value f ''Procrustes_0_1'' of Inl e \<Rightarrow> Inl e | Inr r01 \<Rightarrow>
     (case get_value f ''Procrustes_mean_0'' of Inl e \<Rightarrow> Inl e | Inr mean0 \<Rightarrow>
     (case get_value f ''Procrustes_mean_1'' of Inl e \<Rightarrow> Inl e | Inr mean1 \<Rightarrow>
     (case get_value f ''Procrustes_norm'' of Inl e \<Rightarrow> Inl e | Inr nrm \<Rightarrow>
        Inr (\<lparr>mrows = 2, mcols = 2, mdata = [[r00, r01], [r10, r11]]\<rparr>,
             (mean0, mean1), nrm))))))))"

text \<open>Lines 221 to 226: \<^verbatim>\<open>srcPoints\<close> of one triangle.\<close>

definition triangle_srcPoints :: "Triangle \<Rightarrow> real \<times> real \<Rightarrow> real \<Rightarrow> MatrixXf" where
  "triangle_srcPoints tri mean nrm =
     \<lparr>mrows = 3, mcols = 2,
      mdata = map (\<lambda>p. [(real_of_int (fst p) - fst mean) / (nrm / 150) + 50,
                         (real_of_int (snd p) - snd mean) / (nrm / 150) + 50])
                  (vertices tri)\<rparr>"

definition row_point :: "MatrixXf \<Rightarrow> nat \<Rightarrow> error + QPointF" where
  "row_point A i =
     (case coeff A i 0 of Inl e \<Rightarrow> Inl e | Inr x \<Rightarrow>
     (case coeff A i 1 of Inl e \<Rightarrow> Inl e | Inr y \<Rightarrow> Inr (x, y)))"

text \<open>Lines 228 to 237: \<^verbatim>\<open>dstMat = srcPoints*R\<close> and the three \<^verbatim>\<open>dstPoints\<close>.\<close>

definition dstPoints :: "Triangle \<Rightarrow> MatrixXf \<Rightarrow> real \<times> real \<Rightarrow> real \<Rightarrow> error + QPointF list" where
  "dstPoints tri R mean nrm =
     (if nrm = 0 then Inl NonFinite
      else
     (case mat_mul (triangle_srcPoints tri mean nrm) R of Inl e \<Rightarrow> Inl e | Inr dstMat \<Rightarrow>
     (case row_point dstMat 0 of Inl e \<Rightarrow> Inl e | Inr d0 \<Rightarrow>
     (case row_point dstMat 1 of Inl e \<Rightarrow> Inl e | Inr d1 \<Rightarrow>
     (case row_point dstMat 2 of Inl e \<Rightarrow> Inl e | Inr d2 \<Rightarrow> Inr [d0, d1, d2])))))"

text \<open>Lines 239 to 250: the warped image \<^verbatim>\<open>buffer\<close> and the \<^verbatim>\<open>mask\<close> of one triangle.\<close>

definition warp_buffer :: "OpenCV \<Rightarrow> Mat \<Rightarrow> Triangle \<Rightarrow> QPointF list \<Rightarrow> Mat" where
  "warp_buffer cv src tri dps =
     \<lparr>rows = rows src, cols = cols src, mtype = mtype src,
      pix = cv_warpAffine cv src
              (cv_getAffineTransform cv
                 (map (\<lambda>p. (real_of_int (fst p), real_of_int (snd p))) (vertices tri)) dps)
              (cols src) (rows src)\<rparr>"

text \<open>
  The mask is \<^verbatim>\<open>Mat::zeros(rows, cols, CV_8U)\<close> with the value 255 where
  \<^verbatim>\<open>fillConvexPoly\<close> fills the polygon of the three \<^verbatim>\<open>dstPoints\<close> converted to \<^verbatim>\<open>Point\<close>.
\<close>

definition warp_mask :: "OpenCV \<Rightarrow> Mat \<Rightarrow> QPointF list \<Rightarrow> Mat" where
  "warp_mask cv src dps =
     \<lparr>rows = rows src, cols = cols src, mtype = CV_8UC1,
      pix = (\<lambda>i j. if cv_fillConvexPoly cv (rows src) (cols src)
                          (map (\<lambda>p. (cv_round cv (fst p), cv_round cv (snd p))) dps) i j
                     then 255 else 0)\<rparr>"

text \<open>The \<^verbatim>\<open>foreach\<close> loop of the warp; \<open>canvas\<close> is \<^verbatim>\<open>dst.m()\<close>.\<close>

fun warp_triangles ::
  "OpenCV \<Rightarrow> Mat \<Rightarrow> MatrixXf \<Rightarrow> real \<times> real \<Rightarrow> real \<Rightarrow> Triangle list \<Rightarrow> Mat \<Rightarrow> error + Mat" where
  "warp_triangles cv src R mean nrm [] canvas = Inr canvas"
| "warp_triangles cv src R mean nrm (tri # tris) canvas =
     (case dstPoints tri R mean nrm of Inl e \<Rightarrow> Inl e | Inr dps \<Rightarrow>
     (case bitwise_and (warp_buffer cv src tri dps) (warp_mask cv src dps) of
        Inl e \<Rightarrow> Inl e
      | Inr output \<Rightarrow>
     (case add_assign canvas output of
        Inl e \<Rightarrow> Inl e
      | Inr canvas' \<Rightarrow> warp_triangles cv src R mean nrm tris canvas')))"

text \<open>Lines 143 to 160: the augmented points, the subdivision and the kept triangles.\<close>

definition kept_triangles :: "OpenCV \<Rightarrow> Mat Template \<Rightarrow> error + Triangle list" where
  "kept_triangles cv src =
     (case append_corners (points (tmpl_file src)) (rects (tmpl_file src)) of
        Inl e \<Rightarrow> Inl e
      | Inr pts \<Rightarrow>
     (case cv_triangulate cv (cols (tmpl_m src)) (rows (tmpl_m src)) pts of
        None \<Rightarrow> Inl OutOfRange
      | Some triangleList \<Rightarrow>
          Inr (validTriangles (cv_round cv) (int (cols (tmpl_m src))) (int (rows (tmpl_m src)))
                 triangleList)))"

text \<open>
  \<^verbatim>\<open>DelaunayTransform::project\<close>. The local \<^verbatim>\<open>warp\<close> is the constant \<^verbatim>\<open>true\<close>, so the
  clone of the source, with the lines drawn on it when \<^verbatim>\<open>draw\<close> is set, is always
  replaced by the canvas of the warp.
\<close>

definition Delaunay_project ::
  "OpenCV \<Rightarrow> DelaunayTransform \<Rightarrow> Mat Template \<Rightarrow> Mat Template \<Rightarrow> error + Mat Template" where
  "Delaunay_project cv self src dst =
     (case kept_triangles cv src of Inl e \<Rightarrow> Inl e | Inr tris \<Rightarrow>
     (let dst1 = dst\<lparr>tmpl_m := (if draw self then draw_triangles cv (tmpl_m src) tris
                                 else tmpl_m src)\<rparr>
      in
     (case read_alignment (tmpl_file src) of Inl e \<Rightarrow> Inl e | Inr (R, mean, nrm) \<Rightarrow>
     (case warp_triangles cv (tmpl_m src) R mean nrm tris
             (zeros (rows (tmpl_m src)) (cols (tmpl_m src)) (mtype (tmpl_m src))) of
        Inl e \<Rightarrow> Inl e
      | Inr canvas \<Rightarrow> Inr (dst1\<lparr>tmpl_m := canvas\<rparr>)))))"

section \<open>Definitions used by the statements\<close>

text \<open>A matrix whose stored rows agree with its dimensions, as every Eigen matrix does.\<close>

definition well_formed :: "MatrixXf \<Rightarrow> bool" where
  "well_formed A \<longleftrightarrow> length (mdata A) = mrows A \<and> list_all (\<lambda>r. length r = mcols A) (mdata A)"

text \<open>The dimensions of the mean shape that a run of \<^verbatim>\<open>train\<close> leaves, if it leaves one.\<close>

definition mean_shape_dims :: "error + ProcrustesTransform \<Rightarrow> (nat \<times> nat) option" where
  "mean_shape_dims r =
     (case r of Inl e \<Rightarrow> None | Inr t \<Rightarrow> Some (mrows (meanShape t), mcols (meanShape t)))"

text \<open>The value that a run of \<^verbatim>\<open>project\<close> attaches under a key, if the run returns.\<close>

definition attached :: "error + 'm Template \<Rightarrow> string \<Rightarrow> real option" where
  "attached r k = (case r of Inl e \<Rightarrow> None | Inr d \<Rightarrow> metadata (tmpl_file d) k)"





text \<open>
  The canonical frame in the words of the spec: the centroid is the coordinate-wise mean,
  the norm is the Euclidean norm of the centred full coordinate vector, and each
  coordinate becomes \<open>(raw - centroid) / (norm / 150) + 50\<close>.
\<close>

definition spec_centroid :: "QPointF list \<Rightarrow> real \<times> real" where
  "spec_centroid pts =
     (sum_list (map fst pts) / real (length pts), sum_list (map snd pts) / real (length pts))"

definition spec_norm :: "QPointF list \<Rightarrow> real" where
  "spec_norm pts =
     sqrt (sum_list (map (\<lambda>p. (fst p - fst (spec_centroid pts))\<^sup>2
                              + (snd p - snd (spec_centroid pts))\<^sup>2) pts))"

definition spec_canonical :: "QPointF list \<Rightarrow> QPointF list" where
  "spec_canonical pts =
     map (\<lambda>p. ((fst p - fst (spec_centroid pts)) / (spec_norm pts / 150) + 50,
                (snd p - snd (spec_centroid pts)) / (spec_norm pts / 150) + 50)) pts"


text \<open>Samples and parameters for the concrete instances below.\<close>

definition unit_square :: QRectF where
  "unit_square = \<lparr>rect_x = -1, rect_y = -1, rect_w = 2, rect_h = 2\<rparr>"

definition sample_one :: "unit Template" where
  "sample_one =
     \<lparr>tmpl_m = (),
      tmpl_file = \<lparr>points = [(3, 1)], rects = [unit_square], metadata = Map.empty\<rparr>\<rparr>"

definition sample_two :: "unit Template" where
  "sample_two =
     \<lparr>tmpl_m = (),
      tmpl_file = \<lparr>points = [(2, 0), (-2, 0)], rects = [unit_square], metadata = Map.empty\<rparr>\<rparr>"

definition sample_no_rect :: "unit Template" where
  "sample_no_rect =
     \<lparr>tmpl_m = (), tmpl_file = \<lparr>points = [(3, 1)], rects = [], metadata = Map.empty\<rparr>\<rparr>"

text \<open>The mean shapes that \<^verbatim>\<open>train\<close> returns on \<open>sample_one\<close> and on \<open>sample_two\<close> alone.\<close>

definition trained_one :: ProcrustesTransform where
  "trained_one =
     \<lparr>meanShape =
        \<lparr>mrows = 5, mcols = 2,
         mdata = [[3/5, 1/5], [-2/5, -3/10], [1/10, -3/10], [-2/5, 1/5], [1/10, 1/5]]\<rparr>\<rparr>"


text \<open>
  Stand-ins for the decomposition: \<open>svd_identity\<close> returns identity factors, and the
  empty thin factors for a matrix without columns; \<open>svd_rotation\<close> returns a rotation
  as \<open>U\<close>.
\<close>

definition identity2 :: MatrixXf where
  "identity2 = \<lparr>mrows = 2, mcols = 2, mdata = [[1, 0], [0, 1]]\<rparr>"

definition svd_identity :: "MatrixXf \<Rightarrow> JacobiSVD" where
  "svd_identity A =
     (if mcols A = 0
      then \<lparr>matrixU = \<lparr>mrows = mrows A, mcols = 0, mdata = replicate (mrows A) []\<rparr>,
            singularValues = [], matrixV = empty_matrix\<rparr>
      else \<lparr>matrixU = identity2, singularValues = [1, 1], matrixV = identity2\<rparr>)"








text \<open>
  An image, a sample on it and stand-ins for the OpenCV routines: the subdivision returns
  a triangle with a vertex of its outer frame and a triangle of three points of the
  sample; the affine transform records the destination points, the warp returns the
  source where it is given the transform of the second triangle and zero elsewhere, and
  the fill marks the three corner pixels of the polygon.
\<close>

definition example_image :: Mat where
  "example_image = \<lparr>rows = 100, cols = 100, mtype = CV_8UC1, pix = (\<lambda>i j. 7)\<rparr>"

definition example_cv :: OpenCV where
  "example_cv =
     \<lparr>cv_round = floor,
      cv_triangulate = (\<lambda>ncols nrows pts. Some [(300, 0, 10, 10, 60, 10), (30, 40, 60, 10, 10, 60)]),
      cv_line = (\<lambda>img p q. img),
      cv_getAffineTransform = (\<lambda>ps qs. [map fst qs, map snd qs]),
      cv_warpAffine =
        (\<lambda>src M ncols nrows i j. if M = [[50, 35, 60], [50, 65, 40]] then pix src i j else 0),
      cv_fillConvexPoly = (\<lambda>nrows ncols pts i j. (int j, int i) \<in> set pts)\<rparr>"

definition sample_image :: "Mat Template" where
  "sample_image =
     \<lparr>tmpl_m = example_image,
      tmpl_file =
        \<lparr>points = [(30, 40)],
         rects = [\<lparr>rect_x = 10, rect_y = 10, rect_w = 50, rect_h = 50\<rparr>],
         metadata = map_of [(''Procrustes_0_0'', 0), (''Procrustes_1_0'', 1),
                            (''Procrustes_1_1'', 0), (''Procrustes_0_1'', 1),
                            (''Procrustes_mean_0'', 30), (''Procrustes_mean_1'', 40),
                            (''Procrustes_norm'', 300)]\<rparr>\<rparr>"

section \<open>Properties\<close>

lemma is_inside_iff:
  "is_inside ncols nrows tri \<longleftrightarrow>
     (\<forall>p \<in> set (vertices tri). 0 < fst p \<and> fst p \<le> ncols \<and> 0 < snd p \<and> snd p \<le> nrows)"
proof -
  have "foldl (check_vertex ncols nrows) b ps \<longleftrightarrow>
          b \<and> (\<forall>p \<in> set ps. 0 < fst p \<and> fst p \<le> ncols \<and> 0 < snd p \<and> snd p \<le> nrows)" for b ps
  proof (induction ps arbitrary: b)
    case Nil
    show ?case by simp
  next
    case (Cons q qs)
    show ?case
      unfolding foldl_Cons Cons.IH
      by (auto simp: check_vertex_def)
  qed
  then show ?thesis by (simp add: is_inside_def)
qed

lemma set_validTriangles:
  "set (validTriangles rnd ncols nrows ts) =
     {pt. \<exists>t \<in> set ts. pt = round_triangle rnd t \<and> is_inside ncols nrows pt}"
  by (induction ts) (auto simp: Let_def)

subsection \<open>The triangle filter\<close>

text \<open>
  Claim C5, as the code has it: a triangle is kept exactly when it comes from the
  subdivision and each of its three rounded vertices has \<open>0 < x \<le> width\<close> and
  \<open>0 < y \<le> height\<close>. The lower bounds are strict, the upper bounds are not: a vertex
  with \<open>x = 0\<close> or \<open>y = 0\<close> discards the triangle, a vertex with \<open>x = width\<close> or
  \<open>y = height\<close> does not.
\<close>

theorem kept_vertex_bounds:
  "tri \<in> set (validTriangles rnd ncols nrows ts) \<longleftrightarrow>
     (\<exists>t \<in> set ts. tri = round_triangle rnd t) \<and>
     (\<forall>p \<in> set (vertices tri). 0 < fst p \<and> fst p \<le> ncols \<and> 0 < snd p \<and> snd p \<le> nrows)"
  unfolding set_validTriangles is_inside_iff by blast

text \<open>
  At a 10 by 10 image, of two triangles that differ in one vertex, the one with
  the vertex \<open>(3, 4)\<close> is kept and the one with the vertex \<open>(0, 4)\<close> is not.
\<close>

theorem kept_vertex_bounds_witness:
  "((3, 4), (7, 2), (5, 9))
     \<in> set (validTriangles floor 10 10 [(0, 4, 7, 2, 5, 9), (3, 4, 7, 2, 5, 9)])
   \<and> ((0, 4), (7, 2), (5, 9))
     \<notin> set (validTriangles floor 10 10 [(0, 4, 7, 2, 5, 9), (3, 4, 7, 2, 5, 9)])"
  using kept_vertex_bounds [of "((3, 4), (7, 2), (5, 9))" floor 10 10
          "[(0, 4, 7, 2, 5, 9), (3, 4, 7, 2, 5, 9)]"]
        kept_vertex_bounds [of "((0, 4), (7, 2), (5, 9))" floor 10 10
          "[(0, 4, 7, 2, 5, 9), (3, 4, 7, 2, 5, 9)]"]
  by (simp add: vertices_def round_triangle_def)

text \<open>
  Claim C5 as stated fails: in a 10 by 10 image the triangle with the vertices
  \<open>(10, 5)\<close>, \<open>(3, 3)\<close> and \<open>(5, 10)\<close>, one on the right border \<open>x = width\<close> and one on
  the bottom border \<open>y = height\<close>, is kept.
\<close>

theorem border_vertex_kept:
  "validTriangles floor 10 10 [(10, 5, 3, 3, 5, 10)] = [((10, 5), (3, 3), (5, 10))]"
  by (simp add: is_inside_def vertices_def round_triangle_def check_vertex_def)

subsection \<open>Which errors each step can raise\<close>

lemma first_rect_None: "first_rect rs = None \<longleftrightarrow> rs = []"
  by (cases rs) (simp_all add: first_rect_def)

lemma append_corners_Nil: "append_corners pts [] = Inl RectsIndexOutOfRange"
  by (simp add: append_corners_def first_rect_def)

lemma append_corners_Cons:
  "append_corners pts (r # rs) = Inr (pts @ [topLeft r, topRight r, bottomLeft r, bottomRight r])"
  by (simp add: append_corners_def first_rect_def)

lemma normalize_points_error: "normalize_points pts = Inl e \<Longrightarrow> e = NonFinite"
  by (auto simp: normalize_points_def Let_def split: if_splits)

lemma coeff_error: "coeff A i j = Inl e \<Longrightarrow> e = CoeffIndexOutOfRange"
  by (auto simp: coeff_def split: if_splits)

lemma mat_mul_error: "mat_mul A B = Inl e \<Longrightarrow> e = CoeffIndexOutOfRange"
  by (auto simp: mat_mul_def split: if_splits)

lemma canonical_frame_error: "canonical_frame pts = Inl e \<Longrightarrow> e = NonFinite"
  by (auto simp: canonical_frame_def Let_def split: if_splits)

lemma get_value_error: "get_value f k = Inl e \<Longrightarrow> e = MissingKey k"
  by (auto simp: get_value_def split: option.splits)

lemma read_alignment_error: "read_alignment f = Inl e \<Longrightarrow> e \<noteq> RectsIndexOutOfRange"
  by (auto simp: read_alignment_def split: sum.splits dest: get_value_error)

lemma row_point_error: "row_point A i = Inl e \<Longrightarrow> e = CoeffIndexOutOfRange"
  by (auto simp: row_point_def split: sum.splits dest: coeff_error)

lemma dstPoints_error: "dstPoints tri R mean nrm = Inl e \<Longrightarrow> e \<noteq> RectsIndexOutOfRange"
  by (auto simp: dstPoints_def split: sum.splits if_splits dest: row_point_error mat_mul_error)

lemma bitwise_and_error: "bitwise_and a b = Inl e \<Longrightarrow> e = UnmatchedSizes"
  by (auto simp: bitwise_and_def split: if_splits)

lemma add_assign_error: "add_assign a b = Inl e \<Longrightarrow> e = UnmatchedSizes"
  by (auto simp: add_assign_def split: if_splits)

lemma warp_triangles_error:
  "warp_triangles cv src R mean nrm tris canvas = Inl e \<Longrightarrow> e \<noteq> RectsIndexOutOfRange"
proof (induction tris arbitrary: canvas)
  case Nil
  then show ?case by simp
next
  case (Cons tri tris)
  then show ?case
    by (auto split: sum.splits dest: dstPoints_error bitwise_and_error add_assign_error)
qed

lemma kept_triangles_rects:
  "kept_triangles cv src = Inl RectsIndexOutOfRange \<longleftrightarrow> rects (tmpl_file src) = []"
  by (cases "rects (tmpl_file src)")
     (auto simp: kept_triangles_def append_corners_Nil append_corners_Cons split: option.splits)

lemma normalize_datum_rects:
  "normalize_datum datum = Inl RectsIndexOutOfRange \<longleftrightarrow>
     points (tmpl_file datum) \<noteq> [] \<and> rects (tmpl_file datum) = []"
  by (cases "rects (tmpl_file datum)")
     (auto simp: normalize_datum_def append_corners_Nil append_corners_Cons
           split: sum.splits dest: normalize_points_error)

lemma project_rects:
  "project svd self src dst = Inl RectsIndexOutOfRange \<longleftrightarrow> rects (tmpl_file src) = []"
  by (cases "rects (tmpl_file src)")
     (auto simp: project_def append_corners_Nil append_corners_Cons split: sum.splits prod.splits
           dest: coeff_error mat_mul_error canonical_frame_error)

lemma Delaunay_project_rects:
  "Delaunay_project cv self src dst = Inl RectsIndexOutOfRange \<longleftrightarrow> rects (tmpl_file src) = []"
proof
  assume "rects (tmpl_file src) = []"
  then have "kept_triangles cv src = Inl RectsIndexOutOfRange"
    by (simp add: kept_triangles_rects)
  then show "Delaunay_project cv self src dst = Inl RectsIndexOutOfRange"
    by (simp add: Delaunay_project_def)
next
  assume a: "Delaunay_project cv self src dst = Inl RectsIndexOutOfRange"
  show "rects (tmpl_file src) = []"
  proof (rule ccontr)
    assume "rects (tmpl_file src) \<noteq> []"
    then have "kept_triangles cv src \<noteq> Inl RectsIndexOutOfRange"
      by (simp add: kept_triangles_rects)
    with a show False
      by (auto simp: Delaunay_project_def Let_def split: sum.splits prod.splits
               dest: read_alignment_error warp_triangles_error)
  qed
qed

lemma mean_rows_error: "mean_rows shapes is = Inl e \<Longrightarrow> e = PointIndexOutOfRange"
proof (induction "is")
  case Nil
  then show ?case by simp
next
  case (Cons i "is")
  have "sum_at i ss acc = Inl e' \<Longrightarrow> e' = PointIndexOutOfRange" for ss acc e'
    by (induction ss arbitrary: acc) (auto split: if_splits)
  with Cons show ?case
    by (auto split: sum.splits)
qed

lemma train_rects:
  "train self data = Inl RectsIndexOutOfRange \<longleftrightarrow> collect_normalized data = Inl RectsIndexOutOfRange"
  by (auto simp: train_def split: sum.splits list.splits dest: mean_rows_error)

lemma collect_normalized_append:
  "collect_normalized (xs @ ys) =
     (case collect_normalized xs of
        Inl e \<Rightarrow> Inl e
      | Inr a \<Rightarrow> (case collect_normalized ys of Inl e \<Rightarrow> Inl e | Inr b \<Rightarrow> Inr (a @ b)))"
  by (induction xs) (auto split: sum.splits option.splits)

lemma collect_normalized_rects_iff:
  "collect_normalized data = Inl RectsIndexOutOfRange \<longleftrightarrow>
     (\<exists>pre datum post. data = pre @ datum # post \<and> \<not> isl (collect_normalized pre) \<and>
        points (tmpl_file datum) \<noteq> [] \<and> rects (tmpl_file datum) = [])"
proof
  assume "collect_normalized data = Inl RectsIndexOutOfRange"
  then show "\<exists>pre datum post. data = pre @ datum # post \<and> \<not> isl (collect_normalized pre) \<and>
        points (tmpl_file datum) \<noteq> [] \<and> rects (tmpl_file datum) = []"
  proof (induction data)
    case Nil
    then show ?case by simp
  next
    case (Cons d data)
    show ?case
    proof (cases "normalize_datum d")
      case (Inl e)
      with Cons.prems have "normalize_datum d = Inl RectsIndexOutOfRange" by simp
      then have "points (tmpl_file d) \<noteq> [] \<and> rects (tmpl_file d) = []"
        by (simp add: normalize_datum_rects)
      then have "d # data = [] @ d # data \<and> \<not> isl (collect_normalized []) \<and>
          points (tmpl_file d) \<noteq> [] \<and> rects (tmpl_file d) = []"
        by simp
      then show ?thesis by blast
    next
      case (Inr r)
      with Cons.prems have "collect_normalized data = Inl RectsIndexOutOfRange"
        by (auto split: option.splits sum.splits)
      from Cons.IH [OF this] obtain pre datum post where
        p: "data = pre @ datum # post" "\<not> isl (collect_normalized pre)"
           "points (tmpl_file datum) \<noteq> []" "rects (tmpl_file datum) = []"
        by blast
      from Inr p(2) have "\<not> isl (collect_normalized (d # pre))"
        by (auto split: option.splits sum.splits)
      with p have "d # data = (d # pre) @ datum # post \<and> \<not> isl (collect_normalized (d # pre)) \<and>
          points (tmpl_file datum) \<noteq> [] \<and> rects (tmpl_file datum) = []"
        by simp
      then show ?thesis by blast
    qed
  qed
next
  assume "\<exists>pre datum post. data = pre @ datum # post \<and> \<not> isl (collect_normalized pre) \<and>
        points (tmpl_file datum) \<noteq> [] \<and> rects (tmpl_file datum) = []"
  then obtain pre datum post where
    p: "data = pre @ datum # post" "\<not> isl (collect_normalized pre)"
       "points (tmpl_file datum) \<noteq> []" "rects (tmpl_file datum) = []"
    by blast
  from p(3,4) have "normalize_datum datum = Inl RectsIndexOutOfRange"
    by (simp add: normalize_datum_rects)
  then have "collect_normalized (datum # post) = Inl RectsIndexOutOfRange"
    by simp
  with p(2) show "collect_normalized data = Inl RectsIndexOutOfRange"
    unfolding p(1) collect_normalized_append by (auto split: sum.splits)
qed

text \<open>
  Claim C10: every operation that appends the rectangle corners reads the first rectangle
  without a check. The lookup of the first rectangle has no value exactly when the list
  of rectangles is empty. The body of the training loop fails on that read exactly for a
  datum with points and without rectangles, and \<^verbatim>\<open>train\<close> fails on it exactly when the
  data has such a datum after data that the loop has normalized without an error;
  \<^verbatim>\<open>ProcrustesTransform::project\<close> and \<^verbatim>\<open>DelaunayTransform::project\<close> fail on that read
  exactly when the sample has no rectangle.
\<close>

theorem first_rectangle_required:
  "(first_rect rs = None \<longleftrightarrow> rs = []) \<and>
   (normalize_datum datum = Inl RectsIndexOutOfRange \<longleftrightarrow>
      points (tmpl_file datum) \<noteq> [] \<and> rects (tmpl_file datum) = []) \<and>
   (train self data = Inl RectsIndexOutOfRange \<longleftrightarrow>
      (\<exists>pre d post. data = pre @ d # post \<and> \<not> isl (collect_normalized pre) \<and>
         points (tmpl_file d) \<noteq> [] \<and> rects (tmpl_file d) = [])) \<and>
   (project svd pself src dst = Inl RectsIndexOutOfRange \<longleftrightarrow> rects (tmpl_file src) = []) \<and>
   (Delaunay_project cv dself dsrc ddst = Inl RectsIndexOutOfRange \<longleftrightarrow>
      rects (tmpl_file dsrc) = [])"
proof (intro conjI)
  show "first_rect rs = None \<longleftrightarrow> rs = []"
    by (rule first_rect_None)
  show "normalize_datum datum = Inl RectsIndexOutOfRange \<longleftrightarrow>
      points (tmpl_file datum) \<noteq> [] \<and> rects (tmpl_file datum) = []"
    by (rule normalize_datum_rects)
  show "train self data = Inl RectsIndexOutOfRange \<longleftrightarrow>
      (\<exists>pre d post. data = pre @ d # post \<and> \<not> isl (collect_normalized pre) \<and>
         points (tmpl_file d) \<noteq> [] \<and> rects (tmpl_file d) = [])"
    unfolding train_rects by (rule collect_normalized_rects_iff)
  show "project svd pself src dst = Inl RectsIndexOutOfRange \<longleftrightarrow> rects (tmpl_file src) = []"
    by (rule project_rects)
  show "Delaunay_project cv dself dsrc ddst = Inl RectsIndexOutOfRange \<longleftrightarrow>
      rects (tmpl_file dsrc) = []"
    by (rule Delaunay_project_rects)
qed

subsection \<open>Centring and scaling\<close>

lemma sqrt_16: "sqrt 16 = 4"
  using real_sqrt_abs [of 4] by simp

lemma sum_list_subtract_mean:
  "sum_list (map fst (subtract_mean pts m)) = sum_list (map fst pts) - real (length pts) * fst m"
  "sum_list (map snd (subtract_mean pts m)) = sum_list (map snd pts) - real (length pts) * snd m"
  by (induction pts) (simp_all add: subtract_mean_def algebra_simps)

lemma centred_sum_zero:
  assumes "pts \<noteq> []"
  shows "sum_list (map fst (subtract_mean pts (cv_mean pts))) = 0"
    and "sum_list (map snd (subtract_mean pts (cv_mean pts))) = 0"
  using assms by (simp_all add: sum_list_subtract_mean cv_mean_def)

lemma sum_list_scaled:
  fixes c :: real
  shows "sum_list (map fst (map (\<lambda>p. (fst p / c, snd p / c)) ps)) = sum_list (map fst ps) / c"
    and "sum_list (map snd (map (\<lambda>p. (fst p / c, snd p / c)) ps)) = sum_list (map snd ps) / c"
  by (induction ps) (simp_all add: add_divide_distrib)

lemma sum_squares_scaled:
  fixes c :: real
  shows "sum_list (map (\<lambda>p. (fst p)\<^sup>2 + (snd p)\<^sup>2) (map (\<lambda>p. (fst p / c, snd p / c)) ps))
     = sum_list (map (\<lambda>p. (fst p)\<^sup>2 + (snd p)\<^sup>2) ps) / c\<^sup>2"
  by (induction ps) (simp_all add: add_divide_distrib power_divide)

lemma sum_squares_nonneg: "0 \<le> sum_list (map (\<lambda>p. (fst p)\<^sup>2 + (snd p)\<^sup>2) (ps :: QPointF list))"
  by (induction ps) simp_all

lemma cv_norm_scaled:
  assumes "cv_norm ps \<noteq> 0"
  shows "cv_norm (map (\<lambda>p. (fst p / cv_norm ps, snd p / cv_norm ps)) ps) = 1"
proof -
  let ?S = "sum_list (map (\<lambda>p. (fst p)\<^sup>2 + (snd p)\<^sup>2) ps)"
  have nn: "0 \<le> ?S" by (rule sum_squares_nonneg)
  have n: "cv_norm ps = sqrt ?S" by (simp add: cv_norm_def)
  with assms have pos: "0 < ?S" using nn by (cases "?S = 0") simp_all
  have "(cv_norm ps)\<^sup>2 = ?S" using nn by (simp add: n)
  then have "cv_norm (map (\<lambda>p. (fst p / cv_norm ps, snd p / cv_norm ps)) ps) = sqrt (?S / ?S)"
    unfolding cv_norm_def [of "map _ _"] sum_squares_scaled by simp
  also have "\<dots> = 1" using pos by simp
  finally show ?thesis .
qed

text \<open>
  Claim C3: for a non-empty point set whose centred norm is not zero, the normalization
  of \<^verbatim>\<open>train\<close> (subtract the coordinate-wise mean, divide by the norm of the centred
  points) returns a point set whose centroid is the origin and whose norm is 1.
\<close>

theorem normalize_points_unit:
  assumes "pts \<noteq> []" and "cv_norm (subtract_mean pts (cv_mean pts)) \<noteq> 0"
  shows "\<exists>shape. normalize_points pts = Inr shape \<and> cv_mean shape = (0, 0) \<and> cv_norm shape = 1"
proof -
  let ?c = "subtract_mean pts (cv_mean pts)"
  let ?s = "map (\<lambda>p. (fst p / cv_norm ?c, snd p / cv_norm ?c)) ?c"
  have r: "normalize_points pts = Inr ?s"
    using assms(2) by (simp add: normalize_points_def Let_def)
  have ne: "?s \<noteq> []" using assms(1) by (simp add: subtract_mean_def)
  have "cv_mean ?s = (0, 0)"
    using ne centred_sum_zero [OF assms(1)] by (simp add: cv_mean_def sum_list_scaled del: map_map)
  moreover have "cv_norm ?s = 1"
    using assms(2) by (rule cv_norm_scaled)
  ultimately show ?thesis using r by blast
qed

subsection \<open>The canonical frame\<close>

lemma spec_centroid_eq: "pts \<noteq> [] \<Longrightarrow> spec_centroid pts = cv_mean pts"
  by (simp add: spec_centroid_def cv_mean_def)

lemma spec_norm_eq: "pts \<noteq> [] \<Longrightarrow> spec_norm pts = cv_norm (subtract_mean pts (cv_mean pts))"
  by (simp add: spec_norm_def cv_norm_def subtract_mean_def spec_centroid_eq comp_def)

lemma append_corners_nonempty: "append_corners ps rs = Inr pts \<Longrightarrow> pts \<noteq> []"
  by (cases rs) (auto simp: append_corners_Nil append_corners_Cons)

lemma append_corners_length: "append_corners ps rs = Inr pts \<Longrightarrow> length pts = length ps + 4"
  by (cases rs) (auto simp: append_corners_Nil append_corners_Cons)

text \<open>
  Claim C2: on the augmented points of a sample, lines 91 to 100 of \<^verbatim>\<open>project\<close> compute
  the centroid as the coordinate-wise mean, the norm as the Euclidean norm of the centred
  coordinates, and map every point by \<open>(raw - centroid) / (norm / 150) + 50\<close> in each
  coordinate; when the norm is zero the quotient is not a number.
\<close>

theorem canonical_frame_formula:
  assumes "append_corners ps rs = Inr pts"
  shows "canonical_frame pts =
           (if spec_norm pts = 0 then Inl NonFinite
            else Inr (spec_centroid pts, spec_norm pts,
                      \<lparr>mrows = length pts, mcols = 2,
                       mdata = map (\<lambda>q. [fst q, snd q]) (spec_canonical pts)\<rparr>))"
proof -
  have ne: "pts \<noteq> []" using assms by (rule append_corners_nonempty)
  have n: "cv_norm (subtract_mean pts (cv_mean pts)) = spec_norm pts"
    using ne by (simp add: spec_norm_eq)
  have c: "cv_mean pts = spec_centroid pts"
    using ne by (simp add: spec_centroid_eq)
  have "canonical_frame pts =
          (if spec_norm pts = 0 then Inl NonFinite
           else Inr (cv_mean pts, spec_norm pts,
                     srcPoints (subtract_mean pts (cv_mean pts)) (spec_norm pts)))"
    unfolding canonical_frame_def Let_def n by (rule refl)
  also have "srcPoints (subtract_mean pts (cv_mean pts)) (spec_norm pts) =
               \<lparr>mrows = length pts, mcols = 2,
                mdata = map (\<lambda>q. [fst q, snd q]) (spec_canonical pts)\<rparr>"
    unfolding c by (simp add: srcPoints_def spec_canonical_def subtract_mean_def comp_def)
  finally show ?thesis by (simp add: c)
qed


subsection \<open>The mean shape that the canonical frame is multiplied with\<close>

lemma upt_2: "[0..<2] = [0, Suc 0]"
  by (simp add: numeral_2_eq_2)






subsection \<open>The rotation attached by project\<close>


text \<open>What \<^verbatim>\<open>project\<close> returns when the decomposition has 2 by 2 factors.\<close>

lemma product_U_Vt:
  assumes "mrows U = 2" "mcols U = 2" "mrows V = 2" "mcols V = 2"
  shows "mat_mul U (transpose_matrix V) =
           Inr \<lparr>mrows = 2, mcols = 2,
                mdata = [[mdata U ! 0 ! 0 * mdata V ! 0 ! 0 + mdata U ! 0 ! 1 * mdata V ! 0 ! 1,
                          mdata U ! 0 ! 0 * mdata V ! 1 ! 0 + mdata U ! 0 ! 1 * mdata V ! 1 ! 1],
                         [mdata U ! 1 ! 0 * mdata V ! 0 ! 0 + mdata U ! 1 ! 1 * mdata V ! 0 ! 1,
                          mdata U ! 1 ! 0 * mdata V ! 1 ! 0 + mdata U ! 1 ! 1 * mdata V ! 1 ! 1]]\<rparr>"
  using assms by (simp add: mat_mul_def transpose_matrix_def upt_2)

lemma project_result:
  assumes "append_corners (points (tmpl_file src)) (rects (tmpl_file src)) = Inr pts"
    and "canonical_frame pts = Inr (mean, nrm, sp)"
    and "mat_mul (transpose_matrix sp) (meanShape self) = Inr M"
    and "mrows (matrixU (svd M)) = 2" "mcols (matrixU (svd M)) = 2"
    and "mrows (matrixV (svd M)) = 2" "mcols (matrixV (svd M)) = 2"
  shows "project svd self src dst =
     Inr (dst\<lparr>tmpl_m := tmpl_m src,
              tmpl_file :=
                set_value ''Procrustes_norm'' nrm
               (set_value ''Procrustes_mean_1'' (snd mean)
               (set_value ''Procrustes_mean_0'' (fst mean)
               (set_value ''Procrustes_0_1''
                  (mdata (matrixU (svd M)) ! 0 ! 0 * mdata (matrixV (svd M)) ! 1 ! 0
                   + mdata (matrixU (svd M)) ! 0 ! 1 * mdata (matrixV (svd M)) ! 1 ! 1)
               (set_value ''Procrustes_1_1''
                  (mdata (matrixU (svd M)) ! 1 ! 0 * mdata (matrixV (svd M)) ! 1 ! 0
                   + mdata (matrixU (svd M)) ! 1 ! 1 * mdata (matrixV (svd M)) ! 1 ! 1)
               (set_value ''Procrustes_1_0''
                  (mdata (matrixU (svd M)) ! 1 ! 0 * mdata (matrixV (svd M)) ! 0 ! 0
                   + mdata (matrixU (svd M)) ! 1 ! 1 * mdata (matrixV (svd M)) ! 0 ! 1)
               (set_value ''Procrustes_0_0''
                  (mdata (matrixU (svd M)) ! 0 ! 0 * mdata (matrixV (svd M)) ! 0 ! 0
                   + mdata (matrixU (svd M)) ! 0 ! 1 * mdata (matrixV (svd M)) ! 0 ! 1)
                  (tmpl_file dst)))))))\<rparr>)"
  using assms(1,2,3) product_U_Vt [OF assms(4,5,6,7)]
  by (simp add: project_def coeff_def)



lemma attached_values:
  "attached (Inr (dst\<lparr>tmpl_m := m,
              tmpl_file :=
                set_value ''Procrustes_norm'' nrm
               (set_value ''Procrustes_mean_1'' m1
               (set_value ''Procrustes_mean_0'' m0
               (set_value ''Procrustes_0_1'' r01
               (set_value ''Procrustes_1_1'' r11
               (set_value ''Procrustes_1_0'' r10
               (set_value ''Procrustes_0_0'' r00 f))))))\<rparr>)) =
     (metadata f)(''Procrustes_0_0'' \<mapsto> r00, ''Procrustes_1_0'' \<mapsto> r10, ''Procrustes_1_1'' \<mapsto> r11,
        ''Procrustes_0_1'' \<mapsto> r01, ''Procrustes_mean_0'' \<mapsto> m0, ''Procrustes_mean_1'' \<mapsto> m1,
        ''Procrustes_norm'' \<mapsto> nrm)"
  by (rule ext) (simp add: attached_def set_value_def)


subsection \<open>A sample whose canonical frame is the mean shape\<close>





subsection \<open>The mean shape of shapes of unequal length\<close>

lemma sum_at_ok:
  "list_all (\<lambda>s. i < length s) ss \<Longrightarrow>
     sum_at i ss acc =
       Inr (fst acc + sum_list (map (\<lambda>s. fst (s ! i)) ss),
            snd acc + sum_list (map (\<lambda>s. snd (s ! i)) ss))"
  by (induction ss arbitrary: acc) (simp_all add: add.assoc)

lemma sum_at_fail:
  "\<not> list_all (\<lambda>s. i < length s) ss \<Longrightarrow> sum_at i ss acc = Inl PointIndexOutOfRange"
  by (induction ss arbitrary: acc) auto

lemma mean_rows_ok:
  "list_all (\<lambda>i. list_all (\<lambda>s. i < length s) ss) is \<Longrightarrow>
     mean_rows ss is =
       Inr (map (\<lambda>i. [sum_list (map (\<lambda>s. fst (s ! i)) ss) / real (length ss),
                       sum_list (map (\<lambda>s. snd (s ! i)) ss) / real (length ss)]) is)"
  by (induction "is") (simp_all add: sum_at_ok)

lemma mean_rows_fail:
  "\<not> list_all (\<lambda>i. list_all (\<lambda>s. i < length s) ss) is \<Longrightarrow>
     mean_rows ss is = Inl PointIndexOutOfRange"
proof (induction "is")
  case Nil
  then show ?case by simp
next
  case (Cons i "is")
  show ?case
  proof (cases "list_all (\<lambda>s. i < length s) ss")
    case True
    with Cons show ?thesis by (simp add: sum_at_ok)
  next
    case False
    then show ?thesis by (simp add: sum_at_fail)
  qed
qed

lemma all_rows_readable:
  "list_all (\<lambda>i. list_all (\<lambda>s. i < length s) ss) [0..<n] \<longleftrightarrow> (\<forall>s \<in> set ss. n \<le> length s)"
  by (auto simp: list_all_iff)

text \<open>
  Claim C6, as the code has it: \<^verbatim>\<open>train\<close> never compares point counts. With the
  first collected shape of \<open>N\<close> points as the reference, it reads out of range exactly
  when a later shape has fewer than \<open>N\<close> points; when every later shape has at least
  \<open>N\<close> points it returns a mean shape of \<open>N\<close> rows, the average of the first \<open>N\<close>
  points of every shape, and the further points of a longer shape are ignored.
\<close>

theorem train_point_counts:
  assumes "collect_normalized data = Inr (s0 # shapes)"
  shows "(train self data = Inl PointIndexOutOfRange \<longleftrightarrow> (\<exists>s \<in> set shapes. length s < length s0)) \<and>
         ((\<forall>s \<in> set shapes. length s0 \<le> length s) \<longrightarrow>
            train self data =
              Inr (self\<lparr>meanShape :=
                     \<lparr>mrows = length s0, mcols = 2,
                      mdata = map (\<lambda>i. [sum_list (map (\<lambda>s. fst (s ! i)) (s0 # shapes))
                                           / real (length (s0 # shapes)),
                                         sum_list (map (\<lambda>s. snd (s ! i)) (s0 # shapes))
                                           / real (length (s0 # shapes))])
                                  [0..<length s0]\<rparr>\<rparr>))"
proof (cases "\<forall>s \<in> set shapes. length s0 \<le> length s")
  case True
  then have "\<forall>s \<in> set (s0 # shapes). length s0 \<le> length s"
    by simp
  then have "list_all (\<lambda>i. list_all (\<lambda>s. i < length s) (s0 # shapes)) [0..<length s0]"
    unfolding all_rows_readable .
  then have "mean_rows (s0 # shapes) [0..<length s0] =
       Inr (map (\<lambda>i. [sum_list (map (\<lambda>s. fst (s ! i)) (s0 # shapes)) / real (length (s0 # shapes)),
                       sum_list (map (\<lambda>s. snd (s ! i)) (s0 # shapes)) / real (length (s0 # shapes))])
                [0..<length s0])"
    by (rule mean_rows_ok)
  then show ?thesis
    using True assms by (auto simp: train_def)
next
  case False
  then have "\<not> (\<forall>s \<in> set (s0 # shapes). length s0 \<le> length s)"
    by simp
  then have "\<not> list_all (\<lambda>i. list_all (\<lambda>s. i < length s) (s0 # shapes)) [0..<length s0]"
    unfolding all_rows_readable .
  then have "mean_rows (s0 # shapes) [0..<length s0] = Inl PointIndexOutOfRange"
    by (rule mean_rows_fail)
  then show ?thesis
    using False assms by (auto simp: train_def not_le)
qed

subsection \<open>Trained mean shapes and canonical frames\<close>












subsection \<open>Storing and loading the mean shape\<close>

lemma mean_rows_shape:
  "mean_rows ss is = Inr rs \<Longrightarrow> length rs = length is \<and> list_all (\<lambda>r. length r = 2) rs"
  by (induction "is" arbitrary: rs) (auto split: sum.splits)

lemma train_well_formed: "train self data = Inr t \<Longrightarrow> well_formed (meanShape t)"
  by (auto simp: train_def well_formed_def split: sum.splits list.splits dest: mean_rows_shape)

lemma chop_concat:
  "length rs = r \<Longrightarrow> list_all (\<lambda>x. length x = c) rs \<Longrightarrow> chop r c (concat rs) = rs"
  by (induction rs arbitrary: r) auto

lemma length_concat_uniform:
  "list_all (\<lambda>x. length x = c) rs \<Longrightarrow> length (concat rs) = length rs * c"
  by (induction rs) auto

lemma read_floats_written:
  "read_floats (length vs) (map FloatItem vs @ s) = Some (vs, s)"
  by (induction vs) auto

lemma read_write_matrix:
  assumes "well_formed A"
  shows "read_matrix (write_matrix [] A @ s) = Inr (A, s)"
proof -
  have l: "length (concat (mdata A)) = mrows A * mcols A"
    using assms length_concat_uniform [of "mcols A" "mdata A"] by (simp add: well_formed_def)
  have "read_floats (mrows A * mcols A) (map FloatItem (concat (mdata A)) @ s)
          = Some (concat (mdata A), s)"
    using read_floats_written [of "concat (mdata A)" s] by (simp add: l)
  moreover have "chop (mrows A) (mcols A) (concat (mdata A)) = mdata A"
    using assms by (simp add: well_formed_def chop_concat)
  ultimately show ?thesis
    by (simp add: read_matrix_def write_matrix_def)
qed

text \<open>
  Claim C9: for a transform whose mean shape is a well-formed matrix, \<^verbatim>\<open>load\<close> on what
  \<^verbatim>\<open>store\<close> wrote restores the same mean shape, leaves the rest of the stream, and
  \<^verbatim>\<open>project\<close> on the restored transform gives the same result, with the same seven
  attributes, as on the stored one.
\<close>

theorem store_load_project:
  assumes "well_formed (meanShape self)"
  shows "\<exists>restored. load other (store self [] @ s) = Inr (restored, s) \<and>
           meanShape restored = meanShape self \<and>
           project svd restored src dst = project svd self src dst"
proof -
  have "load other (store self [] @ s) = Inr (other\<lparr>meanShape := meanShape self\<rparr>, s)"
    using read_write_matrix [OF assms, of s] by (simp add: load_def store_def)
  moreover have "project svd (other\<lparr>meanShape := meanShape self\<rparr>) src dst = project svd self src dst"
    by (simp add: project_def cong: sum.case_cong)
  ultimately show ?thesis by simp
qed

subsection \<open>The warp\<close>










subsection \<open>Concrete instances\<close>

lemma augmented_sample_one:
  "append_corners (points (tmpl_file sample_one)) (rects (tmpl_file sample_one)) =
     Inr [(3, 1), (-1, -1), (1, -1), (-1, 1), (1, 1)]"
  by (simp add: sample_one_def append_corners_Cons unit_square_def topLeft_def topRight_def
        bottomLeft_def bottomRight_def)

lemma augmented_sample_two:
  "append_corners (points (tmpl_file sample_two)) (rects (tmpl_file sample_two)) =
     Inr [(2, 0), (-2, 0), (-1, -1), (1, -1), (-1, 1), (1, 1)]"
  by (simp add: sample_two_def append_corners_Cons unit_square_def topLeft_def topRight_def
        bottomLeft_def bottomRight_def)

lemma centred_sample_one:
  "subtract_mean [(3, 1), (-1, -1), (1, -1), (-1, 1), (1, 1)]
     (cv_mean [(3, 1), (-1, -1), (1, -1), (-1, 1), (1, 1)]) =
   [(12/5, 4/5), (-8/5, -6/5), (2/5, -6/5), (-8/5, 4/5), (2/5, 4/5)]"
  by (simp add: subtract_mean_def cv_mean_def)

lemma norm_sample_one:
  "cv_norm [(12/5, 4/5), (-8/5, -6/5), (2/5, -6/5), (-8/5, 4/5), (2/5, 4/5)] = 4"
  by (simp add: cv_norm_def power2_eq_square sqrt_16)

lemma centred_sample_two:
  "subtract_mean [(2, 0), (-2, 0), (-1, -1), (1, -1), (-1, 1), (1, 1)]
     (cv_mean [(2, 0), (-2, 0), (-1, -1), (1, -1), (-1, 1), (1, 1)]) =
   [(2, 0), (-2, 0), (-1, -1), (1, -1), (-1, 1), (1, 1)]"
  by (simp add: subtract_mean_def cv_mean_def)

lemma norm_sample_two:
  "cv_norm [(2, 0), (-2, 0), (-1, -1), (1, -1), (-1, 1), (1, 1)] = 4"
  by (simp add: cv_norm_def power2_eq_square sqrt_16)

lemma normalize_sample_one:
  "normalize_points [(3, 1), (-1, -1), (1, -1), (-1, 1), (1, 1)] =
     Inr [(3/5, 1/5), (-2/5, -3/10), (1/10, -3/10), (-2/5, 1/5), (1/10, 1/5)]"
  unfolding normalize_points_def Let_def centred_sample_one norm_sample_one by simp

lemma normalize_sample_two:
  "normalize_points [(2, 0), (-2, 0), (-1, -1), (1, -1), (-1, 1), (1, 1)] =
     Inr [(1/2, 0), (-1/2, 0), (-1/4, -1/4), (1/4, -1/4), (-1/4, 1/4), (1/4, 1/4)]"
  unfolding normalize_points_def Let_def centred_sample_two norm_sample_two by simp

lemma datum_sample_one:
  "normalize_datum sample_one =
     Inr (Some [(3/5, 1/5), (-2/5, -3/10), (1/10, -3/10), (-2/5, 1/5), (1/10, 1/5)])"
  unfolding normalize_datum_def augmented_sample_one
  by (simp add: normalize_sample_one) (simp add: sample_one_def)

lemma datum_sample_two:
  "normalize_datum sample_two =
     Inr (Some [(1/2, 0), (-1/2, 0), (-1/4, -1/4), (1/4, -1/4), (-1/4, 1/4), (1/4, 1/4)])"
  unfolding normalize_datum_def augmented_sample_two
  by (simp add: normalize_sample_two) (simp add: sample_two_def)

text \<open>Claim C3 at the augmented points of \<open>sample_one\<close>, whose centred norm is 4.\<close>

theorem normalize_points_unit_witness:
  "[(3, 1), (-1, -1), (1, -1), (-1, 1), (1, 1)] \<noteq> ([] :: QPointF list) \<and>
   cv_norm (subtract_mean [(3, 1), (-1, -1), (1, -1), (-1, 1), (1, 1)]
              (cv_mean [(3, 1), (-1, -1), (1, -1), (-1, 1), (1, 1)])) = 4 \<and>
   (\<exists>shape. normalize_points [(3, 1), (-1, -1), (1, -1), (-1, 1), (1, 1)] = Inr shape \<and>
            cv_mean shape = (0, 0) \<and> cv_norm shape = 1)"
  using normalize_points_unit [of "[(3, 1), (-1, -1), (1, -1), (-1, 1), (1, 1)]"]
  unfolding centred_sample_one norm_sample_one by simp


lemma spec_norm_sample_one: "spec_norm [(3, 1), (-1, -1), (1, -1), (-1, 1), (1, 1)] = 4"
  using spec_norm_eq [of "[(3, 1), (-1, -1), (1, -1), (-1, 1), (1, 1)]"]
  unfolding centred_sample_one norm_sample_one by simp

text \<open>Claim C2 at \<open>sample_one\<close>: centroid \<open>(3/5, 1/5)\<close>, norm 4.\<close>

theorem canonical_frame_formula_witness:
  "append_corners [(3, 1)] [unit_square] = Inr [(3, 1), (-1, -1), (1, -1), (-1, 1), (1, 1)] \<and>
   canonical_frame [(3, 1), (-1, -1), (1, -1), (-1, 1), (1, 1)] =
     Inr ((3/5, 1/5), 4,
          \<lparr>mrows = 5, mcols = 2,
           mdata = [[140, 80], [-10, 5], [65, 5], [-10, 80], [65, 80]]\<rparr>)"
proof -
  have a: "append_corners [(3, 1)] [unit_square] = Inr [(3, 1), (-1, -1), (1, -1), (-1, 1), (1, 1)]"
    using augmented_sample_one by (simp add: sample_one_def)
  show ?thesis
    using canonical_frame_formula [OF a] a
    by (simp add: spec_norm_sample_one spec_canonical_def) (simp add: spec_centroid_def)
qed

lemma canonical_sample_one:
  "canonical_frame [(3, 1), (-1, -1), (1, -1), (-1, 1), (1, 1)] =
     Inr ((3/5, 1/5), 4,
          \<lparr>mrows = 5, mcols = 2,
           mdata = [[140, 80], [-10, 5], [65, 5], [-10, 80], [65, 80]]\<rparr>)"
  unfolding canonical_frame_def Let_def centred_sample_one norm_sample_one
  by (simp add: srcPoints_def cv_mean_def)

lemma collect_samples:
  "collect_normalized [sample_one, sample_two] =
     Inr [[(3/5, 1/5), (-2/5, -3/10), (1/10, -3/10), (-2/5, 1/5), (1/10, 1/5)],
          [(1/2, 0), (-1/2, 0), (-1/4, -1/4), (1/4, -1/4), (-1/4, 1/4), (1/4, 1/4)]]"
  by (simp add: datum_sample_one datum_sample_two)

lemma collect_samples_swapped:
  "collect_normalized [sample_two, sample_one] =
     Inr [[(1/2, 0), (-1/2, 0), (-1/4, -1/4), (1/4, -1/4), (-1/4, 1/4), (1/4, 1/4)],
          [(3/5, 1/5), (-2/5, -3/10), (1/10, -3/10), (-2/5, 1/5), (1/10, 1/5)]]"
  by (simp add: datum_sample_one datum_sample_two)

lemma upt_5: "[0..<5] = [0, 1, 2, 3, 4]"
  by (simp add: upt_rec)

text \<open>
  Claim C6 at \<open>sample_one\<close> (five augmented points) and \<open>sample_two\<close> (six): with the
  shorter sample first a mean shape of five rows is returned, with the longer one first
  the read is out of range.
\<close>

theorem train_point_counts_witness:
  "train untrained [sample_one, sample_two] =
     Inr \<lparr>meanShape =
            \<lparr>mrows = 5, mcols = 2,
             mdata = [[11/20, 1/10], [-9/20, -3/20], [-3/40, -11/40], [-3/40, -1/40],
                      [-3/40, 9/40]]\<rparr>\<rparr> \<and>
   train untrained [sample_two, sample_one] = Inl PointIndexOutOfRange"
  using train_point_counts [OF collect_samples, of untrained]
        train_point_counts [OF collect_samples_swapped, of untrained]
  by (simp add: upt_5 untrained_def)

text \<open>
  Claim C6 as stated fails: the training set of \<open>sample_one\<close> and \<open>sample_two\<close>, of five
  and six augmented points, is not rejected and produces a mean shape of five rows.
\<close>

theorem unequal_counts_train:
  "length (points (tmpl_file sample_one)) = 1 \<and> length (points (tmpl_file sample_two)) = 2 \<and>
   mean_shape_dims (train untrained [sample_one, sample_two]) = Some (5, 2)"
proof -
  have "list_all (\<lambda>i. list_all (\<lambda>s. i < length s)
          [[(3/5, 1/5), (-2/5, -3/10), (1/10, -3/10), (-2/5, 1/5), (1/10, 1/5)],
           [(1/2, 0), (-1/2, 0), (-1/4, -1/4), (1/4, -1/4), (-1/4, 1/4), (1/4, 1/4 :: real)]])
          [0..<5]"
    by (simp add: upt_5)
  from mean_rows_ok [OF this]
  have "mean_shape_dims (train untrained [sample_one, sample_two]) = Some (5, 2)"
    unfolding train_def collect_samples by (simp add: mean_shape_dims_def)
  then show ?thesis by (simp add: sample_one_def sample_two_def)
qed

text \<open>Claim C10 at samples with and without a rectangle.\<close>

theorem first_rectangle_required_witness:
  "first_rect [] = None \<and>
   normalize_datum sample_no_rect = Inl RectsIndexOutOfRange \<and>
   train untrained [sample_one, sample_no_rect, sample_two] = Inl RectsIndexOutOfRange \<and>
   project svd_identity untrained sample_no_rect sample_no_rect = Inl RectsIndexOutOfRange \<and>
   project svd_identity untrained sample_one sample_one \<noteq> Inl RectsIndexOutOfRange \<and>
   Delaunay_project example_cv \<lparr>draw = False\<rparr>
     (sample_image\<lparr>tmpl_file := (tmpl_file sample_image)\<lparr>rects := []\<rparr>\<rparr>) sample_image
     = Inl RectsIndexOutOfRange \<and>
   Delaunay_project example_cv \<lparr>draw = False\<rparr> sample_image sample_image
     \<noteq> Inl RectsIndexOutOfRange"
proof -
  have h1: "points (tmpl_file sample_no_rect) \<noteq> []" "rects (tmpl_file sample_no_rect) = []"
    by (simp_all add: sample_no_rect_def)
  have h2: "rects (tmpl_file sample_one) \<noteq> []"
    by (simp add: sample_one_def)
  have h3: "rects (tmpl_file (sample_image\<lparr>tmpl_file := (tmpl_file sample_image)\<lparr>rects := []\<rparr>\<rparr>)) = []"
    by simp
  have h4: "rects (tmpl_file sample_image) \<noteq> []"
    by (simp add: sample_image_def)
  have h5: "[sample_one, sample_no_rect, sample_two] = [sample_one] @ sample_no_rect # [sample_two]
             \<and> \<not> isl (collect_normalized [sample_one])"
    by (simp add: datum_sample_one)
  show ?thesis
    using first_rectangle_required
          [where rs = "[]" and datum = sample_no_rect and self = untrained
             and data = "[sample_one, sample_no_rect, sample_two]"
             and svd = svd_identity and pself = untrained and src = sample_no_rect
             and dst = sample_no_rect and cv = example_cv and dself = "\<lparr>draw = False\<rparr>"
             and dsrc = "sample_image\<lparr>tmpl_file := (tmpl_file sample_image)\<lparr>rects := []\<rparr>\<rparr>"
             and ddst = sample_image]
        first_rectangle_required
          [where rs = "[]" and datum = sample_no_rect and self = untrained
             and data = "[sample_one, sample_no_rect, sample_two]"
             and svd = svd_identity and pself = untrained and src = sample_one
             and dst = sample_one and cv = example_cv and dself = "\<lparr>draw = False\<rparr>"
             and dsrc = sample_image and ddst = sample_image]
        h1 h2 h3 h4 h5
    by blast
qed


lemma train_sample_one: "train untrained [sample_one] = Inr trained_one"
proof -
  have c: "collect_normalized [sample_one] =
             Inr [[(3/5, 1/5), (-2/5, -3/10), (1/10, -3/10), (-2/5, 1/5), (1/10, 1/5)]]"
    by (simp add: datum_sample_one)
  have "list_all (\<lambda>i. list_all (\<lambda>s. i < length s)
          [[(3/5, 1/5), (-2/5, -3/10), (1/10, -3/10), (-2/5, 1/5), (1/10, 1/5 :: real)]])
          [0..<5]"
    by (simp add: upt_5)
  from mean_rows_ok [OF this] show ?thesis
    unfolding train_def c by (simp add: upt_5 untrained_def trained_one_def)
qed


text \<open>
  \<^verbatim>\<open>project\<close> on \<open>sample_one\<close> against a mean shape of two columns and at least five
  rows, with a stand-in for the decomposition.
\<close>

lemma cross_covariance_sample_one:
  assumes "mcols (meanShape self) = 2" and "5 \<le> mrows (meanShape self)"
  shows "\<exists>M. mat_mul (transpose_matrix
                 \<lparr>mrows = 5, mcols = 2,
                  mdata = [[140, 80], [-10, 5], [65, 5], [-10, 80], [65, 80]]\<rparr>)
               (meanShape self) = Inr M \<and> mrows M = 2 \<and> mcols M = 2"
  using assms by (simp add: mat_mul_def transpose_matrix_def)

lemma project_sample_one_identity:
  assumes "mcols (meanShape self) = 2" and "5 \<le> mrows (meanShape self)"
  shows "attached (project svd_identity self sample_one sample_one) =
           [''Procrustes_0_0'' \<mapsto> 1, ''Procrustes_1_0'' \<mapsto> 0, ''Procrustes_1_1'' \<mapsto> 1,
            ''Procrustes_0_1'' \<mapsto> 0, ''Procrustes_mean_0'' \<mapsto> 3/5, ''Procrustes_mean_1'' \<mapsto> 1/5,
            ''Procrustes_norm'' \<mapsto> 4]"
proof -
  from cross_covariance_sample_one [OF assms] obtain M where
    mm: "mat_mul (transpose_matrix
                 \<lparr>mrows = 5, mcols = 2,
                  mdata = [[140, 80], [-10, 5], [65, 5], [-10, 80], [65, 80]]\<rparr>)
               (meanShape self) = Inr M"
    and d: "mrows M = 2" "mcols M = 2"
    by blast
  have s: "svd_identity M = \<lparr>matrixU = identity2, singularValues = [1, 1], matrixV = identity2\<rparr>"
    using d by (simp add: svd_identity_def)
  have dims: "mrows (matrixU (svd_identity M)) = 2" "mcols (matrixU (svd_identity M)) = 2"
      "mrows (matrixV (svd_identity M)) = 2" "mcols (matrixV (svd_identity M)) = 2"
    unfolding s by (simp_all add: identity2_def)
  show ?thesis
    unfolding project_result [where svd = svd_identity and dst = sample_one,
        OF augmented_sample_one canonical_sample_one mm dims] attached_values
    by (simp add: s identity2_def sample_one_def)
qed





text \<open>Claim C9 at the mean shape that \<^verbatim>\<open>train\<close> returns on \<open>sample_one\<close>.\<close>

theorem store_load_project_witness:
  "train untrained [sample_one] = Inr trained_one \<and>
   well_formed (meanShape trained_one) \<and>
   store trained_one [] =
     [IntItem 5, IntItem 2, FloatItem (3/5), FloatItem (1/5), FloatItem (-2/5), FloatItem (-3/10),
      FloatItem (1/10), FloatItem (-3/10), FloatItem (-2/5), FloatItem (1/5), FloatItem (1/10),
      FloatItem (1/5)] \<and>
   (\<exists>restored. load untrained (store trained_one [] @ []) = Inr (restored, []) \<and>
        meanShape restored = meanShape trained_one \<and>
        project svd_identity restored sample_one sample_one =
          project svd_identity trained_one sample_one sample_one \<and>
        attached (project svd_identity restored sample_one sample_one) =
          [''Procrustes_0_0'' \<mapsto> 1, ''Procrustes_1_0'' \<mapsto> 0, ''Procrustes_1_1'' \<mapsto> 1,
           ''Procrustes_0_1'' \<mapsto> 0, ''Procrustes_mean_0'' \<mapsto> 3/5, ''Procrustes_mean_1'' \<mapsto> 1/5,
           ''Procrustes_norm'' \<mapsto> 4])"
proof -
  have w: "well_formed (meanShape trained_one)"
    by (simp add: well_formed_def trained_one_def)
  have t: "mcols (meanShape trained_one) = 2" "5 \<le> mrows (meanShape trained_one)"
    by (simp_all add: trained_one_def)
  have s: "store trained_one [] =
     [IntItem 5, IntItem 2, FloatItem (3/5), FloatItem (1/5), FloatItem (-2/5), FloatItem (-3/10),
      FloatItem (1/10), FloatItem (-3/10), FloatItem (-2/5), FloatItem (1/5), FloatItem (1/10),
      FloatItem (1/5)]"
    by (simp add: store_def write_matrix_def trained_one_def)
  from store_load_project [OF w, of untrained "[]" svd_identity sample_one sample_one]
  obtain restored where
    r: "load untrained (store trained_one [] @ []) = Inr (restored, [])"
       "meanShape restored = meanShape trained_one"
       "project svd_identity restored sample_one sample_one =
          project svd_identity trained_one sample_one sample_one"
    by blast
  have "attached (project svd_identity restored sample_one sample_one) =
          [''Procrustes_0_0'' \<mapsto> 1, ''Procrustes_1_0'' \<mapsto> 0, ''Procrustes_1_1'' \<mapsto> 1,
           ''Procrustes_0_1'' \<mapsto> 0, ''Procrustes_mean_0'' \<mapsto> 3/5, ''Procrustes_mean_1'' \<mapsto> 1/5,
           ''Procrustes_norm'' \<mapsto> 4]"
    unfolding r(3) by (rule project_sample_one_identity [OF t])
  with r w s train_sample_one show ?thesis by blast
qed













end
